theory Spec2Isabelle
  imports Complex_Main
begin

section \<open>JavaScript numbers\<close>

text \<open>
  Every number of \<^verbatim>\<open>src/index.tsx\<close> is a JavaScript \<^verbatim>\<open>number\<close>. The model keeps
  the three special values that JavaScript arithmetic can produce from finite operands
  (\<^verbatim>\<open>NaN\<close>, \<^verbatim>\<open>Infinity\<close>, \<^verbatim>\<open>-Infinity\<close>) and reads every finite number as a real:
  finite arithmetic is exact (no rounding to 53 bits, no overflow), and the two zeros
  are one value, so a zero divisor is read as \<^verbatim>\<open>+0\<close>.
\<close>

datatype jsnum = Num real | PosInfinity | NegInfinity | NaN

fun js_neg :: "jsnum \<Rightarrow> jsnum" where
  "js_neg (Num a) = Num (- a)"
| "js_neg PosInfinity = NegInfinity"
| "js_neg NegInfinity = PosInfinity"
| "js_neg NaN = NaN"

fun js_add :: "jsnum \<Rightarrow> jsnum \<Rightarrow> jsnum" where
  "js_add (Num a) (Num b) = Num (a + b)"
| "js_add NaN b = NaN"
| "js_add a NaN = NaN"
| "js_add PosInfinity NegInfinity = NaN"
| "js_add NegInfinity PosInfinity = NaN"
| "js_add PosInfinity b = PosInfinity"
| "js_add a PosInfinity = PosInfinity"
| "js_add NegInfinity b = NegInfinity"
| "js_add a NegInfinity = NegInfinity"

definition js_sub :: "jsnum \<Rightarrow> jsnum \<Rightarrow> jsnum" where
  "js_sub a b = js_add a (js_neg b)"

fun js_mul :: "jsnum \<Rightarrow> jsnum \<Rightarrow> jsnum" where
  "js_mul (Num a) (Num b) = Num (a * b)"
| "js_mul NaN b = NaN"
| "js_mul a NaN = NaN"
| "js_mul (Num a) PosInfinity =
     (if a = 0 then NaN else if 0 < a then PosInfinity else NegInfinity)"
| "js_mul (Num a) NegInfinity =
     (if a = 0 then NaN else if 0 < a then NegInfinity else PosInfinity)"
| "js_mul PosInfinity (Num b) =
     (if b = 0 then NaN else if 0 < b then PosInfinity else NegInfinity)"
| "js_mul NegInfinity (Num b) =
     (if b = 0 then NaN else if 0 < b then NegInfinity else PosInfinity)"
| "js_mul PosInfinity PosInfinity = PosInfinity"
| "js_mul PosInfinity NegInfinity = NegInfinity"
| "js_mul NegInfinity PosInfinity = NegInfinity"
| "js_mul NegInfinity NegInfinity = PosInfinity"

text \<open>
  Division never raises in JavaScript: a finite non-zero number over zero is an
  infinity, and zero over zero is \<^verbatim>\<open>NaN\<close>.
\<close>

fun js_div :: "jsnum \<Rightarrow> jsnum \<Rightarrow> jsnum" where
  "js_div (Num a) (Num b) =
     (if b \<noteq> 0 then Num (a / b)
      else if a = 0 then NaN else if 0 < a then PosInfinity else NegInfinity)"
| "js_div NaN b = NaN"
| "js_div a NaN = NaN"
| "js_div (Num a) PosInfinity = Num 0"
| "js_div (Num a) NegInfinity = Num 0"
| "js_div PosInfinity (Num b) = (if 0 \<le> b then PosInfinity else NegInfinity)"
| "js_div NegInfinity (Num b) = (if 0 \<le> b then NegInfinity else PosInfinity)"
| "js_div PosInfinity b = NaN"
| "js_div NegInfinity b = NaN"

text \<open>The comparisons: every comparison with \<^verbatim>\<open>NaN\<close> is false.\<close>

fun js_lt :: "jsnum \<Rightarrow> jsnum \<Rightarrow> bool" where
  "js_lt (Num a) (Num b) = (a < b)"
| "js_lt NaN b = False"
| "js_lt a NaN = False"
| "js_lt a NegInfinity = False"
| "js_lt PosInfinity b = False"
| "js_lt NegInfinity b = True"
| "js_lt a PosInfinity = True"

definition js_gt :: "jsnum \<Rightarrow> jsnum \<Rightarrow> bool" where
  "js_gt a b = js_lt b a"

definition js_le :: "jsnum \<Rightarrow> jsnum \<Rightarrow> bool" where
  "js_le a b = (a \<noteq> NaN \<and> b \<noteq> NaN \<and> \<not> js_lt b a)"


text \<open>
  \<^verbatim>\<open>Math.max\<close> and \<^verbatim>\<open>Math.min\<close> return \<^verbatim>\<open>NaN\<close> as soon as one argument is
  \<^verbatim>\<open>NaN\<close>; \<^verbatim>\<open>Math.round\<close> rounds to the nearest integer, a tie going up.
\<close>

definition Math_max :: "jsnum \<Rightarrow> jsnum \<Rightarrow> jsnum" where
  "Math_max a b = (if a = NaN \<or> b = NaN then NaN else if js_lt a b then b else a)"

definition Math_min :: "jsnum \<Rightarrow> jsnum \<Rightarrow> jsnum" where
  "Math_min a b = (if a = NaN \<or> b = NaN then NaN else if js_lt b a then b else a)"

fun Math_round :: "jsnum \<Rightarrow> jsnum" where
  "Math_round (Num a) = Num (of_int \<lfloor>a + 1 / 2\<rfloor>)"
| "Math_round a = a"

text \<open>Truthiness of a number (\<^verbatim>\<open>!value\<close>, \<^verbatim>\<open>step ? a : b\<close>, \<^verbatim>\<open>a || b\<close>): zero and
  \<^verbatim>\<open>NaN\<close> are falsy.\<close>

fun js_truthy :: "jsnum \<Rightarrow> bool" where
  "js_truthy (Num a) = (a \<noteq> 0)"
| "js_truthy NaN = False"
| "js_truthy a = True"

fun is_finite :: "jsnum \<Rightarrow> bool" where
  "is_finite (Num a) = True"
| "is_finite a = False"

section \<open>Configuration\<close>

text \<open>
  \<^verbatim>\<open>SliderProps\<close>, \<^verbatim>\<open>SliderState\<close> and \<^verbatim>\<open>Dimensions\<close> are declared in
  \<^verbatim>\<open>./types\<close>, which is not among the sources; the records hold the fields that
  \<^verbatim>\<open>index.tsx\<close> reads, with the types its uses and \<^verbatim>\<open>defaultProps\<close> give them. A callback
  prop is a flag saying whether the owner supplied it (the calls are
  \<^verbatim>\<open>this.props?.onValueChange?.(...)\<close>).
\<close>

record Dimensions =
  width :: jsnum
  height :: jsnum

record SliderProps =
  minimumValue :: jsnum
  maximumValue :: jsnum
  step :: jsnum
  vertical :: bool
  dualSlider :: bool
  allowCrossover :: bool
  trackClickable :: bool
  disabled :: bool
  thumbTouchSize :: "Dimensions option"
  onSlidingStart :: bool
  onValueChange :: bool
  onSlidingComplete :: bool

definition defaultProps :: SliderProps where
  "defaultProps =
     \<lparr>minimumValue = Num 0, maximumValue = Num 1, step = Num 0, vertical = False,
      dualSlider = False, allowCrossover = True, trackClickable = True,
      disabled = False, thumbTouchSize = None,
      onSlidingStart = False, onValueChange = False, onSlidingComplete = False\<rparr>"

section \<open>Value normalizer\<close>

text \<open>The \<^verbatim>\<open>value\<close> argument of \<^verbatim>\<open>normalizeValue\<close>: \<^verbatim>\<open>undefined\<close>, a number or an
  array of numbers.\<close>

datatype value_input = Absent | Scalar jsnum | Array "jsnum list"

definition getBetweenValue :: "SliderProps \<Rightarrow> jsnum \<Rightarrow> jsnum" where
  "getBetweenValue props inputValue =
     Math_max (Math_min inputValue (maximumValue props)) (minimumValue props)"

text \<open>
  \<^verbatim>\<open>Array.prototype.sort\<close> with the comparator \<^verbatim>\<open>(a, b) => a - b\<close>: a stable sort,
  here by insertion. An element goes behind \<open>b\<close> exactly when the comparator's result
  \<^verbatim>\<open>a - b\<close> is positive (a \<^verbatim>\<open>NaN\<close> result counts as zero).
\<close>

fun sort_insert :: "jsnum \<Rightarrow> jsnum list \<Rightarrow> jsnum list" where
  "sort_insert a [] = [a]"
| "sort_insert a (b # bs) =
     (if js_gt (js_sub a b) (Num 0) then b # sort_insert a bs else a # b # bs)"

definition sort_ascending :: "jsnum list \<Rightarrow> jsnum list" where
  "sort_ascending xs = foldr sort_insert xs []"

text \<open>The result of the first branch of \<^verbatim>\<open>normalizeValue\<close> (lines 78 to 84).\<close>

definition emptyValue :: "SliderProps \<Rightarrow> jsnum list" where
  "emptyValue props =
     (if dualSlider props then [minimumValue props, maximumValue props] else [Num 0])"

text \<open>The array part of \<^verbatim>\<open>normalizeValue\<close> (lines 95 to 120), for a non-empty array.\<close>

definition normalizeArray :: "SliderProps \<Rightarrow> jsnum list \<Rightarrow> jsnum list" where
  "normalizeArray props xs =
     (let normalizedValues = map (getBetweenValue props) xs in
      if dualSlider props then
        (if length normalizedValues = 1 then
           (let singleValue = normalizedValues ! 0;
                range = js_mul (js_sub (maximumValue props) (minimumValue props)) (Num (1 / 10))
            in [Math_max (js_sub singleValue range) (minimumValue props),
                Math_min (js_add singleValue range) (maximumValue props)])
         else if 2 \<le> length normalizedValues then
           (let val1 = normalizedValues ! 0; val2 = normalizedValues ! 1 in
            if \<not> allowCrossover props \<and> js_gt val1 val2 then [val2, val1] else [val1, val2])
         else sort_ascending normalizedValues)
      else sort_ascending normalizedValues)"

text \<open>
  The test \<^verbatim>\<open>!value || (Array.isArray(value) && value.length === 0)\<close> of line 78: it
  holds for \<^verbatim>\<open>undefined\<close>, for a falsy number (zero, \<^verbatim>\<open>NaN\<close>) and for the empty
  array; every array is truthy.
\<close>

fun isEmptyInput :: "value_input \<Rightarrow> bool" where
  "isEmptyInput Absent = True"
| "isEmptyInput (Scalar v) = (\<not> js_truthy v)"
| "isEmptyInput (Array xs) = (xs = [])"

text \<open>\<^verbatim>\<open>normalizeValue\<close> (lines 74 to 121). Past the first branch the value is a number
  or an array; the case of \<^verbatim>\<open>undefined\<close> is not reached there.\<close>

definition normalizeValue :: "SliderProps \<Rightarrow> value_input \<Rightarrow> jsnum list" where
  "normalizeValue props v =
     (if isEmptyInput v then emptyValue props
      else (case v of
              Scalar n \<Rightarrow> [getBetweenValue props n]
            | Array xs \<Rightarrow> normalizeArray props xs
            | Absent \<Rightarrow> emptyValue props))"

text \<open>The numbers an input holds.\<close>

fun inputNumbers :: "value_input \<Rightarrow> jsnum list" where
  "inputNumbers Absent = []"
| "inputNumbers (Scalar v) = [v]"
| "inputNumbers (Array xs) = xs"

text \<open>A value lies within the configured bounds.\<close>

definition withinBounds :: "SliderProps \<Rightarrow> jsnum \<Rightarrow> bool" where
  "withinBounds props v = (js_le (minimumValue props) v \<and> js_le v (maximumValue props))"

section \<open>Rect\<close>




section \<open>Value store\<close>

text \<open>
  An \<^verbatim>\<open>Animated.Value\<close> is a mutable object: two arrays can hold the same object, and
  \<^verbatim>\<open>setValue\<close> is seen through both. The store maps the identity of each object (an
  address) to the number it holds; \<^verbatim>\<open>new Animated.Value(v)\<close> takes the next unused
  address. The animation engine behind the class is outside the model.
\<close>

type_synonym addr = nat

record AnimatedStore =
  cells :: "addr \<Rightarrow> jsnum"
  next_free :: addr

definition new_AnimatedValue :: "jsnum \<Rightarrow> AnimatedStore \<Rightarrow> addr \<times> AnimatedStore" where
  "new_AnimatedValue v h =
     (next_free h, h\<lparr>cells := (cells h)(next_free h := v), next_free := Suc (next_free h)\<rparr>)"

definition setValue :: "addr \<Rightarrow> jsnum \<Rightarrow> AnimatedStore \<Rightarrow> AnimatedStore" where
  "setValue c v h = h\<lparr>cells := (cells h)(c := v)\<rparr>"

text \<open>An element of the arrays \<^verbatim>\<open>updateValues\<close> takes (a number or an
  \<^verbatim>\<open>Animated.Value\<close>), and its two arguments (one element or an array).\<close>

datatype animated_elem = Number jsnum | AnimatedValue addr

datatype values_arg = One animated_elem | Many "animated_elem list"

text \<open>
  The \<^verbatim>\<open>values.map\<close> of \<^verbatim>\<open>updateValues\<close> (lines 139 to 154), index by index, with the
  store passed along. It runs only on arrays of one length, so \<^verbatim>\<open>newValues[index]\<close> is
  the element at the same place of the second list.
\<close>

fun updateCells ::
  "animated_elem list \<Rightarrow> animated_elem list \<Rightarrow> AnimatedStore \<Rightarrow> addr list \<times> AnimatedStore"
where
  "updateCells (AnimatedValue c # rest) (valueToSet # newRest) h =
     (let n = (case valueToSet of AnimatedValue c' \<Rightarrow> cells h c' | Number m \<Rightarrow> m);
          (cs, h') = updateCells rest newRest (setValue c n h)
      in (c # cs, h'))"
| "updateCells (Number k # rest) (AnimatedValue c' # newRest) h =
     (let (cs, h') = updateCells rest newRest h in (c' # cs, h'))"
| "updateCells (Number k # rest) (Number m # newRest) h =
     (let (c, h1) = new_AnimatedValue m h;
          (cs, h') = updateCells rest newRest h1
      in (c # cs, h'))"
| "updateCells vs ns h = ([], h)"

text \<open>
  \<^verbatim>\<open>updateValues({values, newValues = values})\<close>: \<open>None\<close> is the omitted
  \<^verbatim>\<open>newValues\<close>. With two arrays of different lengths it calls itself on
  \<^verbatim>\<open>newValues\<close> alone; with anything but two arrays it returns one new cell holding 0.
\<close>

function (sequential) updateValues ::
  "values_arg \<Rightarrow> values_arg option \<Rightarrow> AnimatedStore \<Rightarrow> addr list \<times> AnimatedStore"
where
  "updateValues (Many vs) (Some (Many ns)) h =
     (if length ns \<noteq> length vs then updateValues (Many ns) None h
      else updateCells vs ns h)"
| "updateValues (Many vs) None h = updateCells vs vs h"
| "updateValues vals newVals h =
     (let (c, h') = new_AnimatedValue (Num 0) h in ([c], h'))"
  by pat_completeness auto
termination
  by (relation "measure (\<lambda>(vals, newVals, h). case newVals of None \<Rightarrow> 0 | Some n \<Rightarrow> 1)") auto


section \<open>The component\<close>

text \<open>The state: \<open>stateValues\<close> is \<^verbatim>\<open>this.state.values\<close>, the cell of each thumb in
  index order. \<^verbatim>\<open>trackMarksValues\<close>, which no gesture reads or writes, is left out.\<close>

record SliderState =
  allMeasured :: bool
  containerSize :: Dimensions
  thumbSize :: Dimensions
  stateValues :: "addr list"

text \<open>The calls of the owner's callbacks, in the order they are made, each with the
  raw value array and the thumb index it was given.\<close>

datatype notification =
  SlidingStart "jsnum list" nat
| ValueChange "jsnum list" nat
| SlidingComplete "jsnum list" nat

text \<open>
  A mounted \<^verbatim>\<open>Slider\<close>: its props and state, the instance fields
  \<^verbatim>\<open>_activeThumbIndex\<close> and \<^verbatim>\<open>_previousLeft\<close>, the layout direction
  \<^verbatim>\<open>I18nManager.isRTL\<close>, the store of its \<^verbatim>\<open>Animated.Value\<close> objects, and the
  callbacks called so far.
\<close>

record Slider =
  props :: SliderProps
  state :: SliderState
  activeThumbIndex :: nat
  previousLeft :: jsnum
  isRTL :: bool
  store :: AnimatedStore
  notifications :: "notification list"

record GestureState =
  dx :: jsnum
  dy :: jsnum

text \<open>
  What the model can fail with. \<open>TypeError\<close> is JavaScript's, raised by
  \<^verbatim>\<open>this.state.values[thumbIndex].__getValue()\<close> when the index is outside the array.
  \<open>SparseValues\<close> marks the one state the model does not represent: the
  \<^verbatim>\<open>setState\<close> of \<^verbatim>\<open>_setCurrentValue\<close> writing beyond the end of
  \<^verbatim>\<open>values\<close>, which leaves an array with holes.
\<close>

datatype failure = TypeError | SparseValues

definition getRawValues :: "Slider \<Rightarrow> jsnum list" where
  "getRawValues s = map (cells (store s)) (stateValues (state s))"

definition getRatio :: "Slider \<Rightarrow> jsnum \<Rightarrow> jsnum" where
  "getRatio s v =
     js_div (js_sub v (minimumValue (props s)))
       (js_sub (maximumValue (props s)) (minimumValue (props s)))"

definition getThumbLeft :: "Slider \<Rightarrow> jsnum \<Rightarrow> jsnum" where
  "getThumbLeft s v =
     (let standardRatio = getRatio s v;
          ratio = (if isRTL s then js_sub (Num 1) standardRatio else standardRatio)
      in js_mul ratio
           (js_sub (if vertical (props s) then height (containerSize (state s))
                    else width (containerSize (state s)))
              (width (thumbSize (state s)))))"

definition getCurrentValue :: "Slider \<Rightarrow> nat \<Rightarrow> failure + jsnum" where
  "getCurrentValue s thumbIndex =
     (if thumbIndex < length (stateValues (state s))
      then Inr (cells (store s) (stateValues (state s) ! thumbIndex))
      else Inl TypeError)"

section \<open>Gesture-to-value mapper\<close>

text \<open>\<^verbatim>\<open>_getValue\<close> (lines 438 to 483). \<^verbatim>\<open>rawValues[0]\<close> and \<^verbatim>\<open>rawValues[1]\<close> are read
  only where the array has two elements.\<close>

definition getValue :: "Slider \<Rightarrow> GestureState \<Rightarrow> jsnum" where
  "getValue s gestureState =
     (let len = js_sub (width (containerSize (state s))) (width (thumbSize (state s)));
          thumbLeft = (if vertical (props s)
                       then js_add (previousLeft s) (js_mul (dy gestureState) (Num (- 1)))
                       else js_add (previousLeft s) (dx gestureState));
          nonRtlRatio = js_div thumbLeft len;
          ratio = (if isRTL s then js_sub (Num 1) nonRtlRatio else nonRtlRatio);
          rawValues = getRawValues s;
          buffer = (if js_truthy (step (props s)) then step (props s) else Num (1 / 10));
          (minValue, maxValue) =
            (if length (stateValues (state s)) = 2 \<and> \<not> allowCrossover (props s) then
               (if activeThumbIndex s = 1
                then (js_add (rawValues ! 0) buffer, maximumValue (props s))
                else (minimumValue (props s), js_sub (rawValues ! 1) buffer))
             else (minimumValue (props s), maximumValue (props s)))
      in if js_truthy (step (props s)) then
           Math_max minValue
             (Math_min maxValue
                (js_add (minimumValue (props s))
                   (js_mul
                      (Math_round
                         (js_div
                            (js_mul ratio
                               (js_sub (maximumValue (props s)) (minimumValue (props s))))
                            (step (props s))))
                      (step (props s)))))
         else
           Math_max minValue
             (Math_min maxValue
                (js_add
                   (js_mul ratio (js_sub (maximumValue (props s)) (minimumValue (props s))))
                   (minimumValue (props s)))))"

section \<open>Writing a thumb's value\<close>

text \<open>
  \<^verbatim>\<open>_setCurrentValue\<close> (lines 487 to 528). Where the thumb's cell exists it is set at
  once and the callback runs before the method returns. Where it does not,
  \<^verbatim>\<open>this.setState(updater, callback)\<close> only schedules the update: the result then
  carries the scheduled write (index and value), which \<open>applySetState\<close> performs, with
  the callback, once the calling handler has returned.
  \<^verbatim>\<open>thumbIndex ?? 0\<close> is the index itself, every caller passing a number.
\<close>

definition setCurrentValue ::
  "jsnum \<Rightarrow> nat \<Rightarrow> (Slider \<Rightarrow> Slider) option \<Rightarrow> Slider \<Rightarrow> Slider \<times> (nat \<times> jsnum) option"
where
  "setCurrentValue v thumbIndex callback s =
     (let safeIndex = thumbIndex;
          vals = stateValues (state s);
          v' =
            (if dualSlider (props s) \<and> 2 \<le> length vals then
               (let otherIndex = (if safeIndex = 0 then 1 else 0);
                    otherCell = cells (store s) (vals ! otherIndex);
                    otherValue = (if js_truthy otherCell then otherCell else Num 0)
                in if \<not> allowCrossover (props s) then
                     (if safeIndex = 0 \<and> js_gt v otherValue then otherValue
                      else if safeIndex = 1 \<and> js_lt v otherValue then otherValue
                      else v)
                   else v)
             else v)
      in if safeIndex < length vals then
           (let s' = s\<lparr>store := setValue (vals ! safeIndex) v' (store s)\<rparr>
            in (case callback of None \<Rightarrow> s' | Some cb \<Rightarrow> cb s', None))
         else (s, Some (safeIndex, v')))"

definition applySetState ::
  "(nat \<times> jsnum) option \<Rightarrow> (Slider \<Rightarrow> Slider) option \<Rightarrow> Slider \<Rightarrow> failure + Slider"
where
  "applySetState pending callback s =
     (case pending of
        None \<Rightarrow> Inr s
      | Some (safeIndex, v) \<Rightarrow>
          (let vals = stateValues (state s) in
           if length vals < safeIndex then Inl SparseValues
           else
             (let (c, h) = new_AnimatedValue v (store s);
                  newValues = (if safeIndex < length vals then vals[safeIndex := c]
                               else vals @ [c]);
                  s' = s\<lparr>store := h, state := (state s)\<lparr>stateValues := newValues\<rparr>\<rparr>
              in Inr (case callback of None \<Rightarrow> s' | Some cb \<Rightarrow> cb s'))))"

section \<open>Gesture handlers\<close>

text \<open>The three optional callbacks: a supplied one is called with
  \<^verbatim>\<open>this._getRawValues(this.state.values)\<close> and \<^verbatim>\<open>this._activeThumbIndex\<close>, read at
  the moment of the call.\<close>

definition call_onSlidingStart :: "Slider \<Rightarrow> Slider" where
  "call_onSlidingStart s =
     (if onSlidingStart (props s)
      then s\<lparr>notifications := notifications s @ [SlidingStart (getRawValues s) (activeThumbIndex s)]\<rparr>
      else s)"

definition call_onValueChange :: "Slider \<Rightarrow> Slider" where
  "call_onValueChange s =
     (if onValueChange (props s)
      then s\<lparr>notifications := notifications s @ [ValueChange (getRawValues s) (activeThumbIndex s)]\<rparr>
      else s)"

definition call_onSlidingComplete :: "Slider \<Rightarrow> Slider" where
  "call_onSlidingComplete s =
     (if onSlidingComplete (props s)
      then s\<lparr>notifications := notifications s @ [SlidingComplete (getRawValues s) (activeThumbIndex s)]\<rparr>
      else s)"

text \<open>\<^verbatim>\<open>_handlePanResponderGrant\<close> (lines 313 to 329); the argument is
  \<^verbatim>\<open>nativeEvent.locationX\<close>.\<close>

definition handlePanResponderGrant :: "jsnum \<Rightarrow> Slider \<Rightarrow> failure + Slider" where
  "handlePanResponderGrant locationX s =
     (case (if trackClickable (props s)
            then Inr (js_sub locationX (width (thumbSize (state s))))
            else (case getCurrentValue s (activeThumbIndex s) of
                    Inl e \<Rightarrow> Inl e
                  | Inr v \<Rightarrow> Inr (getThumbLeft s v))) of
        Inl e \<Rightarrow> Inl e
      | Inr left \<Rightarrow>
          (let left' =
                 (case thumbTouchSize (props s) of
                    None \<Rightarrow> left
                  | Some touch \<Rightarrow>
                      js_sub left
                        (js_div (js_sub (width touch) (width (thumbSize (state s)))) (Num 2)))
           in Inr (call_onSlidingStart (s\<lparr>previousLeft := left'\<rparr>))))"

text \<open>\<^verbatim>\<open>_handlePanResponderMove\<close> (lines 331 to 346).\<close>

definition handlePanResponderMove :: "GestureState \<Rightarrow> Slider \<Rightarrow> failure + Slider" where
  "handlePanResponderMove gestureState s =
     (if disabled (props s) then Inr s
      else
        (let (s1, pending) =
               setCurrentValue (getValue s gestureState) (activeThumbIndex s)
                 (Some call_onValueChange) s
         in applySetState pending (Some call_onValueChange) s1))"

text \<open>\<^verbatim>\<open>_handlePanResponderEnd\<close> (lines 353 to 377), the handler of release and of
  terminate. \<open>endCallback\<close> is the arrow function it passes to \<^verbatim>\<open>_setCurrentValue\<close>.\<close>

definition endCallback :: "Slider \<Rightarrow> Slider" where
  "endCallback s =
     call_onSlidingComplete (if trackClickable (props s) then call_onValueChange s else s)"

definition handlePanResponderEnd :: "GestureState \<Rightarrow> Slider \<Rightarrow> failure + Slider" where
  "handlePanResponderEnd gestureState s =
     (if disabled (props s) then Inr s
      else
        (let (s1, pending) =
               setCurrentValue (getValue s gestureState) (activeThumbIndex s)
                 (Some endCallback) s;
             s2 = s1\<lparr>activeThumbIndex := 0\<rparr>
         in applySetState pending (Some endCallback) s2))"

section \<open>Hit test\<close>








section \<open>Construction and measurement\<close>

text \<open>
  The constructor (lines 171 to 206): nothing is measured, both sizes are zero, and
  \<^verbatim>\<open>values\<close> are the cells \<^verbatim>\<open>updateValues\<close> builds from the normalized
  \<^verbatim>\<open>value\<close> prop. The instance fields start at 0 (lines 655 and 658).
\<close>

definition emptyStore :: AnimatedStore where
  "emptyStore = \<lparr>cells = (\<lambda>c. Num 0), next_free = 0\<rparr>"

definition newSlider :: "SliderProps \<Rightarrow> value_input \<Rightarrow> bool \<Rightarrow> Slider" where
  "newSlider p v rtl =
     (let (vals, h) = updateValues (Many (map Number (normalizeValue p v))) None emptyStore
      in \<lparr>props = p,
          state = \<lparr>allMeasured = False,
                    containerSize = \<lparr>width = Num 0, height = Num 0\<rparr>,
                    thumbSize = \<lparr>width = Num 0, height = Num 0\<rparr>,
                    stateValues = vals\<rparr>,
          activeThumbIndex = 0, previousLeft = Num 0, isRTL = rtl, store = h,
          notifications = []\<rparr>)"

text \<open>The \<^verbatim>\<open>setState\<close> of \<^verbatim>\<open>_handleMeasure\<close> (lines 413 to 419), once the container
  and the thumb have both been measured.\<close>

definition setMeasured :: "Dimensions \<Rightarrow> Dimensions \<Rightarrow> Slider \<Rightarrow> Slider" where
  "setMeasured container thumb s =
     s\<lparr>state := (state s)\<lparr>containerSize := container, thumbSize := thumb, allMeasured := True\<rparr>\<rparr>"

section \<open>The parts of the mapper by name\<close>

text \<open>
  The local variables of \<^verbatim>\<open>_getValue\<close>, each as a function of the component and
  the gesture, so that statements can speak of them: \<^verbatim>\<open>length\<close>, \<^verbatim>\<open>thumbLeft\<close>,
  \<^verbatim>\<open>ratio\<close>, \<^verbatim>\<open>buffer\<close>, the pair of \<^verbatim>\<open>minValue\<close> and \<^verbatim>\<open>maxValue\<close>, and the value
  that the final \<^verbatim>\<open>Math.max(minValue, Math.min(maxValue, ...))\<close> clamps.
\<close>

definition trackLength :: "Slider \<Rightarrow> jsnum" where
  "trackLength s = js_sub (width (containerSize (state s))) (width (thumbSize (state s)))"

definition thumbLeftOf :: "Slider \<Rightarrow> GestureState \<Rightarrow> jsnum" where
  "thumbLeftOf s gestureState =
     (if vertical (props s)
      then js_add (previousLeft s) (js_mul (dy gestureState) (Num (- 1)))
      else js_add (previousLeft s) (dx gestureState))"

definition dragRatio :: "Slider \<Rightarrow> GestureState \<Rightarrow> jsnum" where
  "dragRatio s gestureState =
     (let nonRtlRatio = js_div (thumbLeftOf s gestureState) (trackLength s)
      in if isRTL s then js_sub (Num 1) nonRtlRatio else nonRtlRatio)"

definition separationBuffer :: "Slider \<Rightarrow> jsnum" where
  "separationBuffer s = (if js_truthy (step (props s)) then step (props s) else Num (1 / 10))"

definition valueLimits :: "Slider \<Rightarrow> jsnum \<times> jsnum" where
  "valueLimits s =
     (if length (stateValues (state s)) = 2 \<and> \<not> allowCrossover (props s) then
        (if activeThumbIndex s = 1
         then (js_add (getRawValues s ! 0) (separationBuffer s), maximumValue (props s))
         else (minimumValue (props s), js_sub (getRawValues s ! 1) (separationBuffer s)))
      else (minimumValue (props s), maximumValue (props s)))"

definition unclampedValue :: "Slider \<Rightarrow> GestureState \<Rightarrow> jsnum" where
  "unclampedValue s gestureState =
     (if js_truthy (step (props s)) then
        js_add (minimumValue (props s))
          (js_mul
             (Math_round
                (js_div
                   (js_mul (dragRatio s gestureState)
                      (js_sub (maximumValue (props s)) (minimumValue (props s))))
                   (step (props s))))
             (step (props s)))
      else
        js_add
          (js_mul (dragRatio s gestureState)
             (js_sub (maximumValue (props s)) (minimumValue (props s))))
          (minimumValue (props s)))"

text \<open>The value \<^verbatim>\<open>_setCurrentValue\<close> writes for a requested value (lines 495 to
  511): in dual mode without crossover a thumb stops at the other thumb's value.\<close>

definition crossoverClamped :: "Slider \<Rightarrow> nat \<Rightarrow> jsnum \<Rightarrow> jsnum" where
  "crossoverClamped s safeIndex v =
     (if dualSlider (props s) \<and> 2 \<le> length (stateValues (state s)) then
        (let otherIndex = (if safeIndex = 0 then 1 else 0);
             otherCell = cells (store s) (stateValues (state s) ! otherIndex);
             otherValue = (if js_truthy otherCell then otherCell else Num 0)
         in if \<not> allowCrossover (props s) then
              (if safeIndex = 0 \<and> js_gt v otherValue then otherValue
               else if safeIndex = 1 \<and> js_lt v otherValue then otherValue
               else v)
            else v)
      else v)"


section \<open>Facts about the number operations\<close>

lemma Math_max_Num: "Math_max (Num a) (Num b) = Num (max a b)"
  by (simp add: Math_max_def max_def)

lemma Math_min_Num: "Math_min (Num a) (Num b) = Num (min a b)"
  by (simp add: Math_min_def min_def)

lemma js_le_Num: "js_le (Num a) (Num b) = (a \<le> b)"
  by (auto simp add: js_le_def)

lemma js_sub_Num: "js_sub (Num a) (Num b) = Num (a - b)"
  by (simp add: js_sub_def)

lemma getBetweenValue_bounds:
  assumes "js_le (minimumValue p) (maximumValue p)" and "v \<noteq> NaN"
  shows "withinBounds p (getBetweenValue p v)"
  using assms
  by (cases "minimumValue p"; cases "maximumValue p"; cases v)
     (auto simp add: getBetweenValue_def Math_max_def Math_min_def js_le_def withinBounds_def)

lemma getBetweenValue_within:
  assumes "withinBounds p v"
  shows "getBetweenValue p v = v"
  using assms
  by (cases "minimumValue p"; cases "maximumValue p"; cases v)
     (auto simp add: getBetweenValue_def Math_max_def Math_min_def js_le_def withinBounds_def)

lemma set_sort_insert: "set (sort_insert a bs) = insert a (set bs)"
  by (induction bs) auto

lemma set_sort_ascending: "set (sort_ascending xs) = set xs"
  by (induction xs) (simp_all add: sort_ascending_def set_sort_insert)

lemma window_bounds:
  assumes "js_le (minimumValue p) (maximumValue p)"
    and "is_finite (minimumValue p)" and "is_finite (maximumValue p)"
    and "withinBounds p c"
  shows "withinBounds p
           (Math_max (js_sub c (js_mul (js_sub (maximumValue p) (minimumValue p)) (Num (1 / 10))))
              (minimumValue p)) \<and>
         withinBounds p
           (Math_min (js_add c (js_mul (js_sub (maximumValue p) (minimumValue p)) (Num (1 / 10))))
              (maximumValue p))"
proof -
  obtain lo hi where lo: "minimumValue p = Num lo" and hi: "maximumValue p = Num hi"
    using assms(2,3) by (cases "minimumValue p"; cases "maximumValue p") auto
  obtain z where z: "c = Num z"
    using assms(4) lo hi by (cases c) (auto simp add: withinBounds_def js_le_def)
  have "lo \<le> z" "z \<le> hi"
    using assms(4) by (simp_all add: withinBounds_def lo hi z js_le_Num)
  then have "z - (hi - lo) / 10 \<le> hi \<and> lo \<le> z + (hi - lo) / 10"
    by argo
  then show ?thesis
    using \<open>lo \<le> z\<close> \<open>z \<le> hi\<close>
    by (simp add: withinBounds_def lo hi z js_sub_Num Math_max_Num Math_min_Num js_le_Num)
qed

lemma emptyValue_dual_bounds:
  assumes "js_le (minimumValue p) (maximumValue p)" and "dualSlider p"
  shows "\<forall>x\<in>set (emptyValue p). withinBounds p x"
  using assms
  by (cases "minimumValue p"; cases "maximumValue p")
     (auto simp add: emptyValue_def withinBounds_def js_le_def)

lemma normalizeArray_bounds:
  assumes le: "js_le (minimumValue p) (maximumValue p)"
    and fin: "is_finite (minimumValue p)" "is_finite (maximumValue p)"
    and nan: "NaN \<notin> set xs" and ne: "xs \<noteq> []"
  shows "\<forall>x\<in>set (normalizeArray p xs). withinBounds p x"
proof -
  have each: "\<And>x. x \<in> set xs \<Longrightarrow> withinBounds p (getBetweenValue p x)"
    using getBetweenValue_bounds [OF le] nan by metis
  show ?thesis
  proof (cases "dualSlider p")
    case False
    then show ?thesis
      using each by (auto simp add: normalizeArray_def set_sort_ascending)
  next
    case True
    note dual = this
    show ?thesis
    proof (cases xs)
      case Nil
      with ne show ?thesis by simp
    next
      case (Cons a rest)
      note xs = this
      have a: "withinBounds p (getBetweenValue p a)"
        using each xs by simp
      show ?thesis
      proof (cases rest)
        case Nil
        then show ?thesis
          using dual xs window_bounds [OF le fin a]
          by (simp add: normalizeArray_def Let_def)
      next
        case (Cons b more)
        have b: "withinBounds p (getBetweenValue p b)"
          using each xs Cons by simp
        show ?thesis
          using dual xs Cons a b by (simp add: normalizeArray_def Let_def)
      qed
    qed
  qed
qed

section \<open>Facts about the mapper\<close>

lemma getValue_clamp:
  "getValue s g =
     Math_max (fst (valueLimits s)) (Math_min (snd (valueLimits s)) (unclampedValue s g))"
  by (simp add: getValue_def valueLimits_def unclampedValue_def dragRatio_def thumbLeftOf_def
      trackLength_def separationBuffer_def Let_def)

lemma setCurrentValue_present:
  assumes "i < length (stateValues (state s))"
  shows "setCurrentValue v i (Some cb) s =
           (cb (s\<lparr>store := setValue (stateValues (state s) ! i) (crossoverClamped s i v) (store s)\<rparr>),
            None)"
  using assms by (simp add: setCurrentValue_def crossoverClamped_def Let_def)

lemma js_add_NaN_right: "js_add a NaN = NaN"
  by (cases a) simp_all

lemma js_lt_NaN_right: "\<not> js_lt a NaN"
  by (cases a) simp_all


lemma Math_max_NaN: "Math_max a NaN = NaN" "Math_max NaN a = NaN"
  by (simp_all add: Math_max_def)

lemma Math_min_NaN: "Math_min a NaN = NaN" "Math_min NaN a = NaN"
  by (simp_all add: Math_min_def)

lemma unclampedValue_NaN:
  assumes "dragRatio s g = NaN"
  shows "unclampedValue s g = NaN"
  using assms by (simp add: unclampedValue_def js_add_NaN_right)

lemma dragRatio_zero_over_zero:
  assumes "trackLength s = Num 0" and "thumbLeftOf s g = Num 0"
  shows "dragRatio s g = NaN"
  using assms by (simp add: dragRatio_def js_sub_def js_add_NaN_right)

lemma dragRatio_not_finite:
  assumes "trackLength s = Num 0"
  shows "\<not> is_finite (dragRatio s g)"
  using assms
  by (cases "thumbLeftOf s g") (simp_all add: dragRatio_def Let_def js_sub_def)

lemma getValue_NaN:
  assumes "trackLength s = Num 0" and "thumbLeftOf s g = Num 0"
  shows "getValue s g = NaN"
  by (simp add: getValue_clamp unclampedValue_NaN [OF dragRatio_zero_over_zero [OF assms]]
      Math_max_NaN Math_min_NaN)

lemma crossoverClamped_NaN: "crossoverClamped s i NaN = NaN"
  by (simp add: crossoverClamped_def Let_def js_gt_def js_lt_NaN_right)

lemma handlePanResponderMove_present:
  assumes "\<not> disabled (props s)" and "activeThumbIndex s < length (stateValues (state s))"
  shows "handlePanResponderMove g s =
           Inr (call_onValueChange
                  (s\<lparr>store := setValue (stateValues (state s) ! activeThumbIndex s)
                                (crossoverClamped s (activeThumbIndex s) (getValue s g))
                                (store s)\<rparr>))"
  using assms
  by (simp add: handlePanResponderMove_def setCurrentValue_present applySetState_def)

section \<open>The normalizer and the bounds\<close>

text \<open>
  Claim C2, as the spec states it, fails: in single mode an absent, empty or zero input
  yields \<open>[0]\<close> whatever the bounds are. With the bounds 5 and 10 the result \<open>[0]\<close> lies
  outside them. Among the numbers that are not finite, a \<^verbatim>\<open>NaN\<close> element stays
  \<^verbatim>\<open>NaN\<close>, and with the bounds \<^verbatim>\<open>-Infinity\<close> and \<^verbatim>\<open>Infinity\<close> the window of dual mode
  around \<^verbatim>\<open>Infinity\<close> starts at \<^verbatim>\<open>NaN\<close>.
\<close>

theorem normalizeValue_bounds_counterexample:
  "js_le (minimumValue (defaultProps\<lparr>minimumValue := Num 5, maximumValue := Num 10\<rparr>))
         (maximumValue (defaultProps\<lparr>minimumValue := Num 5, maximumValue := Num 10\<rparr>)) \<and>
   normalizeValue (defaultProps\<lparr>minimumValue := Num 5, maximumValue := Num 10\<rparr>) Absent = [Num 0] \<and>
   normalizeValue (defaultProps\<lparr>minimumValue := Num 5, maximumValue := Num 10\<rparr>) (Array []) = [Num 0] \<and>
   normalizeValue (defaultProps\<lparr>minimumValue := Num 5, maximumValue := Num 10\<rparr>) (Scalar (Num 0)) = [Num 0] \<and>
   \<not> withinBounds (defaultProps\<lparr>minimumValue := Num 5, maximumValue := Num 10\<rparr>) (Num 0) \<and>
   normalizeValue defaultProps (Array [NaN]) = [NaN] \<and>
   \<not> withinBounds defaultProps NaN \<and>
   js_le NegInfinity PosInfinity \<and>
   normalizeValue
     (defaultProps\<lparr>minimumValue := NegInfinity, maximumValue := PosInfinity, dualSlider := True\<rparr>)
     (Array [PosInfinity]) = [NaN, PosInfinity]"
  by (simp add: normalizeValue_def normalizeArray_def emptyValue_def defaultProps_def
      withinBounds_def js_le_Num js_le_def getBetweenValue_def Math_max_def Math_min_def
      sort_ascending_def js_sub_def)

text \<open>
  Claim C2, amended. For finite bounds with \<open>minimumValue \<le> maximumValue\<close> and an input
  that holds no \<^verbatim>\<open>NaN\<close>: in dual mode, and in single mode for an input that is not
  empty (a non-zero number or a non-empty array), every element of the result lies
  within the bounds; in single mode an empty input (absent, zero, the empty array) gives
  \<open>[0]\<close> whatever the bounds.
\<close>

theorem normalizeValue_within_bounds:
  assumes "js_le (minimumValue p) (maximumValue p)"
    and "is_finite (minimumValue p)" and "is_finite (maximumValue p)"
    and "NaN \<notin> set (inputNumbers v)"
  shows "(dualSlider p \<or> \<not> isEmptyInput v \<longrightarrow>
           (\<forall>x\<in>set (normalizeValue p v). withinBounds p x)) \<and>
         (\<not> dualSlider p \<and> isEmptyInput v \<longrightarrow> normalizeValue p v = [Num 0])"
proof (cases "isEmptyInput v")
  case True
  then show ?thesis
    using emptyValue_dual_bounds [OF assms(1)]
    by (auto simp add: normalizeValue_def emptyValue_def)
next
  case False
  note ne = this
  show ?thesis
  proof (cases v)
    case Absent
    with ne show ?thesis by simp
  next
    case (Scalar n)
    with ne have "n \<noteq> NaN" by auto
    then show ?thesis
      using Scalar ne getBetweenValue_bounds [OF assms(1)]
      by (simp add: normalizeValue_def)
  next
    case (Array xs)
    then show ?thesis
      using ne assms normalizeArray_bounds [of p xs]
      by (simp add: normalizeValue_def)
  qed
qed

theorem normalizeValue_within_bounds_witness:
  "js_le (minimumValue (defaultProps\<lparr>maximumValue := Num 10\<rparr>))
         (maximumValue (defaultProps\<lparr>maximumValue := Num 10\<rparr>)) \<and>
   NaN \<notin> set (inputNumbers (Array [Num 15, Num (- 3), Num 4])) \<and>
   \<not> isEmptyInput (Array [Num 15, Num (- 3), Num 4]) \<and>
   normalizeValue (defaultProps\<lparr>maximumValue := Num 10\<rparr>) (Array [Num 15, Num (- 3), Num 4]) =
     [Num 0, Num 4, Num 10] \<and>
   list_all (withinBounds (defaultProps\<lparr>maximumValue := Num 10\<rparr>))
     (normalizeValue (defaultProps\<lparr>maximumValue := Num 10\<rparr>) (Array [Num 15, Num (- 3), Num 4])) \<and>
   normalizeValue (defaultProps\<lparr>maximumValue := Num 10\<rparr>) Absent = [Num 0] \<and>
   list_all
     (withinBounds (defaultProps\<lparr>minimumValue := Num 5, maximumValue := Num 10, dualSlider := True\<rparr>))
     (normalizeValue
        (defaultProps\<lparr>minimumValue := Num 5, maximumValue := Num 10, dualSlider := True\<rparr>) Absent)"
proof -
  let ?p = "defaultProps\<lparr>maximumValue := Num 10\<rparr>"
  let ?v = "Array [Num 15, Num (- 3), Num 4]"
  let ?q = "defaultProps\<lparr>minimumValue := Num 5, maximumValue := Num 10, dualSlider := True\<rparr>"
  have h1: "js_le (minimumValue ?p) (maximumValue ?p)"
    by (simp add: defaultProps_def js_le_Num)
  have h2: "is_finite (minimumValue ?p)" and h3: "is_finite (maximumValue ?p)"
    by (simp_all add: defaultProps_def)
  have h4: "NaN \<notin> set (inputNumbers ?v)" and h5: "\<not> isEmptyInput ?v"
    by simp_all
  have "\<forall>x\<in>set (normalizeValue ?p ?v). withinBounds ?p x"
    using normalizeValue_within_bounds [OF h1 h2 h3 h4] h5 by blast
  then have "list_all (withinBounds ?p) (normalizeValue ?p ?v)"
    by (simp only: list_all_iff)
  moreover have "normalizeValue ?p ?v = [Num 0, Num 4, Num 10]"
    by (simp add: normalizeValue_def normalizeArray_def getBetweenValue_def defaultProps_def
        Math_max_Num Math_min_Num sort_ascending_def js_sub_Num js_gt_def)
  moreover have "normalizeValue ?p Absent = [Num 0]"
  proof -
    have "\<not> dualSlider ?p \<and> isEmptyInput Absent"
      by (simp add: defaultProps_def)
    moreover have "NaN \<notin> set (inputNumbers Absent)"
      by simp
    ultimately show ?thesis
      using normalizeValue_within_bounds [OF h1 h2 h3, of Absent] by blast
  qed
  moreover have "list_all (withinBounds ?q) (normalizeValue ?q Absent)"
  proof -
    have q1: "js_le (minimumValue ?q) (maximumValue ?q)"
      by (simp add: defaultProps_def js_le_Num)
    have q2: "is_finite (minimumValue ?q)" and q3: "is_finite (maximumValue ?q)"
      by (simp_all add: defaultProps_def)
    have q4: "NaN \<notin> set (inputNumbers Absent)"
      by simp
    have "dualSlider ?q"
      by (simp add: defaultProps_def)
    then have "\<forall>x\<in>set (normalizeValue ?q Absent). withinBounds ?q x"
      using normalizeValue_within_bounds [OF q1 q2 q3 q4] by blast
    then show ?thesis
      by (simp only: list_all_iff)
  qed
  ultimately show ?thesis
    using h1 h4 h5 by blast
qed

section \<open>Zero is an empty input\<close>

text \<open>
  Claim C10. The number 0 is falsy, so \<open>normalizeValue\<close> treats it as it treats an
  absent value: the result is \<open>[0]\<close> in single mode, also when 0 lies outside the bounds,
  and \<open>[minimumValue, maximumValue]\<close> in dual mode; the number is never clamped.
\<close>

theorem normalizeValue_zero_is_empty:
  "normalizeValue p (Scalar (Num 0)) = normalizeValue p Absent \<and>
   normalizeValue p (Scalar (Num 0)) =
     (if dualSlider p then [minimumValue p, maximumValue p] else [Num 0])"
  by (simp add: normalizeValue_def emptyValue_def)

theorem normalizeValue_zero_is_empty_witness:
  "normalizeValue (defaultProps\<lparr>minimumValue := Num 5, maximumValue := Num 10\<rparr>) (Scalar (Num 0)) =
     [Num 0] \<and>
   \<not> withinBounds (defaultProps\<lparr>minimumValue := Num 5, maximumValue := Num 10\<rparr>) (Num 0) \<and>
   getBetweenValue (defaultProps\<lparr>minimumValue := Num 5, maximumValue := Num 10\<rparr>) (Num 0) = Num 5 \<and>
   normalizeValue
     (defaultProps\<lparr>minimumValue := Num 5, maximumValue := Num 10, dualSlider := True\<rparr>)
     (Scalar (Num 0)) = [Num 5, Num 10]"
  using normalizeValue_zero_is_empty [of "defaultProps\<lparr>minimumValue := Num 5, maximumValue := Num 10\<rparr>"]
    normalizeValue_zero_is_empty
      [of "defaultProps\<lparr>minimumValue := Num 5, maximumValue := Num 10, dualSlider := True\<rparr>"]
  by (simp add: defaultProps_def withinBounds_def js_le_Num getBetweenValue_def
      Math_max_Num Math_min_Num normalizeValue_def emptyValue_def)

section \<open>Dual mode\<close>

text \<open>
  Claim C6, as the spec states it, fails for a single element outside the bounds: the
  window is built around the clamped element, not around the element. With the bounds 0
  and 100 the input \<open>[200]\<close> gives \<open>[90, 100]\<close>, where the claim's formula gives
  \<open>[190, 100]\<close>.
\<close>

theorem normalizeValue_dual_counterexample:
  "dualSlider (defaultProps\<lparr>maximumValue := Num 100, dualSlider := True\<rparr>) \<and>
   normalizeValue (defaultProps\<lparr>maximumValue := Num 100, dualSlider := True\<rparr>) (Array [Num 200]) =
     [Num 90, Num 100] \<and>
   [Math_max (js_sub (Num 200) (js_mul (js_sub (Num 100) (Num 0)) (Num (1 / 10)))) (Num 0),
    Math_min (js_add (Num 200) (js_mul (js_sub (Num 100) (Num 0)) (Num (1 / 10)))) (Num 100)] =
     [Num 190, Num 100]"
  by (simp add: normalizeValue_def normalizeArray_def getBetweenValue_def defaultProps_def
      Math_max_Num Math_min_Num js_sub_Num)

text \<open>
  Claim C6, amended. In dual mode a one-element array \<open>[v]\<close> gives the window of a tenth
  of the range around \<open>v\<close> clamped to the bounds, each end clamped again; for \<open>v\<close> within
  the bounds this is the window around \<open>v\<close> itself. An array of two or more elements
  gives its first two elements clamped, swapped exactly when crossover is not allowed and
  the first exceeds the second.
\<close>

theorem normalizeValue_dual:
  assumes "dualSlider p"
  shows "normalizeValue p (Array [v]) =
           [Math_max
              (js_sub (getBetweenValue p v)
                 (js_mul (js_sub (maximumValue p) (minimumValue p)) (Num (1 / 10))))
              (minimumValue p),
            Math_min
              (js_add (getBetweenValue p v)
                 (js_mul (js_sub (maximumValue p) (minimumValue p)) (Num (1 / 10))))
              (maximumValue p)] \<and>
         (withinBounds p v \<longrightarrow>
          normalizeValue p (Array [v]) =
            [Math_max
               (js_sub v (js_mul (js_sub (maximumValue p) (minimumValue p)) (Num (1 / 10))))
               (minimumValue p),
             Math_min
               (js_add v (js_mul (js_sub (maximumValue p) (minimumValue p)) (Num (1 / 10))))
               (maximumValue p)]) \<and>
         normalizeValue p (Array (a # b # rest)) =
           (if \<not> allowCrossover p \<and> js_gt (getBetweenValue p a) (getBetweenValue p b)
            then [getBetweenValue p b, getBetweenValue p a]
            else [getBetweenValue p a, getBetweenValue p b])"
  using assms
  by (simp add: normalizeValue_def normalizeArray_def Let_def getBetweenValue_within)

theorem normalizeValue_dual_witness:
  "dualSlider (defaultProps\<lparr>maximumValue := Num 100, dualSlider := True\<rparr>) \<and>
   withinBounds (defaultProps\<lparr>maximumValue := Num 100, dualSlider := True\<rparr>) (Num 50) \<and>
   normalizeValue (defaultProps\<lparr>maximumValue := Num 100, dualSlider := True\<rparr>) (Array [Num 50]) =
     [Num 40, Num 60] \<and>
   normalizeValue (defaultProps\<lparr>maximumValue := Num 10, dualSlider := True\<rparr>)
     (Array [Num 7, Num 3]) = [Num 7, Num 3] \<and>
   normalizeValue
     (defaultProps\<lparr>maximumValue := Num 10, dualSlider := True, allowCrossover := False\<rparr>)
     (Array [Num 7, Num 3]) = [Num 3, Num 7]"
proof -
  let ?p = "defaultProps\<lparr>maximumValue := Num 100, dualSlider := True\<rparr>"
  let ?q = "defaultProps\<lparr>maximumValue := Num 10, dualSlider := True\<rparr>"
  let ?r = "defaultProps\<lparr>maximumValue := Num 10, dualSlider := True, allowCrossover := False\<rparr>"
  have d: "dualSlider ?p" "dualSlider ?q" "dualSlider ?r"
    by (simp_all add: defaultProps_def)
  have w: "withinBounds ?p (Num 50)"
    by (simp add: defaultProps_def withinBounds_def js_le_Num)
  have "normalizeValue ?p (Array [Num 50]) =
          [Math_max
             (js_sub (Num 50) (js_mul (js_sub (maximumValue ?p) (minimumValue ?p)) (Num (1 / 10))))
             (minimumValue ?p),
           Math_min
             (js_add (Num 50) (js_mul (js_sub (maximumValue ?p) (minimumValue ?p)) (Num (1 / 10))))
             (maximumValue ?p)]"
    using normalizeValue_dual [OF d(1), of "Num 50"] w by blast
  then have one: "normalizeValue ?p (Array [Num 50]) = [Num 40, Num 60]"
    by (simp add: defaultProps_def js_sub_Num Math_max_Num Math_min_Num)
  have "normalizeValue ?q (Array [Num 7, Num 3]) =
          [getBetweenValue ?q (Num 7), getBetweenValue ?q (Num 3)]"
    using normalizeValue_dual [OF d(2), of _ "Num 7" "Num 3" "[]"]
    by (simp add: defaultProps_def)
  then have two: "normalizeValue ?q (Array [Num 7, Num 3]) = [Num 7, Num 3]"
    by (simp add: getBetweenValue_def defaultProps_def Math_max_Num Math_min_Num)
  have "normalizeValue ?r (Array [Num 7, Num 3]) =
          [getBetweenValue ?r (Num 3), getBetweenValue ?r (Num 7)]"
    using normalizeValue_dual [OF d(3), of _ "Num 7" "Num 3" "[]"]
    by (simp add: defaultProps_def getBetweenValue_def Math_max_Num Math_min_Num js_gt_def)
  then have three: "normalizeValue ?r (Array [Num 7, Num 3]) = [Num 3, Num 7]"
    by (simp add: getBetweenValue_def defaultProps_def Math_max_Num Math_min_Num)
  show ?thesis
    using d(1) w one two three by blast
qed

section \<open>Step quantization\<close>





section \<open>Clamping outside the limits\<close>

lemma clamp_below:
  assumes "js_lt t lo" and "hi \<noteq> NaN"
  shows "Math_max lo (Math_min hi t) = lo"
  using assms
  by (cases lo; cases hi; cases t) (auto simp add: Math_max_def Math_min_def)

lemma clamp_above:
  assumes "js_lt hi t" and "js_le lo hi"
  shows "Math_max lo (Math_min hi t) = hi"
  using assms
  by (cases lo; cases hi; cases t) (auto simp add: Math_max_def Math_min_def js_le_def)

section \<open>Division by the track length\<close>

text \<open>
  Claim C3, as the spec states it, fails: nothing guards the division. A component that
  has just been constructed has a track of length 0; a press at \<open>locationX = 0\<close>
  leaves \<^verbatim>\<open>_previousLeft\<close> at 0, and a move by 0 then divides 0 by 0:
  \<^verbatim>\<open>_getValue\<close> returns \<^verbatim>\<open>NaN\<close> and the move handler writes it into the thumb's
  cell.
\<close>

theorem getValue_guard_counterexample:
  "trackLength (newSlider defaultProps (Scalar (Num 0)) False) = Num 0 \<and>
   handlePanResponderGrant (Num 0) (newSlider defaultProps (Scalar (Num 0)) False) =
     Inr (newSlider defaultProps (Scalar (Num 0)) False) \<and>
   getValue (newSlider defaultProps (Scalar (Num 0)) False) \<lparr>dx = Num 0, dy = Num 0\<rparr> = NaN \<and>
   map_sum id getRawValues
     (handlePanResponderMove \<lparr>dx = Num 0, dy = Num 0\<rparr>
        (newSlider defaultProps (Scalar (Num 0)) False)) = Inr [NaN]"
  by (simp add: newSlider_def defaultProps_def normalizeValue_def emptyValue_def
      new_AnimatedValue_def emptyStore_def trackLength_def js_sub_Num
      handlePanResponderGrant_def call_onSlidingStart_def
      getValue_def getRawValues_def Math_max_NaN Math_min_NaN
      handlePanResponderMove_def setCurrentValue_def applySetState_def call_onValueChange_def
      setValue_def)

text \<open>
  Claim C3, amended. The mapper divides by the usable track length without a guard, and
  nothing is treated as pending. When the track length is zero the ratio is not a finite
  number. When the thumb's pixel position \<open>thumbLeft\<close> is zero as well, the ratio and the
  mapped value are \<^verbatim>\<open>NaN\<close>, and a move event of an enabled slider writes \<^verbatim>\<open>NaN\<close>
  into the active thumb's cell.
\<close>

theorem getValue_unguarded:
  "(trackLength s = Num 0 \<longrightarrow> \<not> is_finite (dragRatio s g)) \<and>
   (trackLength s = Num 0 \<and> thumbLeftOf s g = Num 0 \<longrightarrow>
      dragRatio s g = NaN \<and> getValue s g = NaN \<and>
      (\<not> disabled (props s) \<and> activeThumbIndex s < length (stateValues (state s)) \<longrightarrow>
         (\<exists>s'. handlePanResponderMove g s = Inr s' \<and>
               getRawValues s' ! activeThumbIndex s = NaN)))"
proof (intro conjI impI)
  assume "trackLength s = Num 0"
  then show "\<not> is_finite (dragRatio s g)"
    by (rule dragRatio_not_finite)
next
  assume "trackLength s = Num 0 \<and> thumbLeftOf s g = Num 0"
  then show "dragRatio s g = NaN"
    by (simp add: dragRatio_zero_over_zero)
next
  assume "trackLength s = Num 0 \<and> thumbLeftOf s g = Num 0"
  then show "getValue s g = NaN"
    by (simp add: getValue_NaN)
next
  assume zero: "trackLength s = Num 0 \<and> thumbLeftOf s g = Num 0"
    and live: "\<not> disabled (props s) \<and> activeThumbIndex s < length (stateValues (state s))"
  have v: "getValue s g = NaN"
    using zero by (simp add: getValue_NaN)
  show "\<exists>s'. handlePanResponderMove g s = Inr s' \<and> getRawValues s' ! activeThumbIndex s = NaN"
    using live
    by (simp add: handlePanResponderMove_present v crossoverClamped_NaN getRawValues_def
        call_onValueChange_def setValue_def)
qed

theorem getValue_unguarded_witness:
  "trackLength (newSlider defaultProps (Scalar (Num 0)) False) = Num 0 \<and>
   thumbLeftOf (newSlider defaultProps (Scalar (Num 0)) False) \<lparr>dx = Num 0, dy = Num 0\<rparr> = Num 0 \<and>
   \<not> disabled (props (newSlider defaultProps (Scalar (Num 0)) False)) \<and>
   getValue (newSlider defaultProps (Scalar (Num 0)) False) \<lparr>dx = Num 0, dy = Num 0\<rparr> = NaN \<and>
   (\<exists>s'. handlePanResponderMove \<lparr>dx = Num 0, dy = Num 0\<rparr>
            (newSlider defaultProps (Scalar (Num 0)) False) = Inr s' \<and>
         getRawValues s' ! 0 = NaN) \<and>
   dragRatio (newSlider defaultProps (Scalar (Num 0)) False) \<lparr>dx = Num 7, dy = Num 0\<rparr> =
     PosInfinity \<and>
   \<not> is_finite
       (dragRatio (newSlider defaultProps (Scalar (Num 0)) False) \<lparr>dx = Num 7, dy = Num 0\<rparr>)"
proof -
  let ?s = "newSlider defaultProps (Scalar (Num 0)) False"
  let ?g = "\<lparr>dx = Num 0, dy = Num 0\<rparr>"
  let ?h = "\<lparr>dx = Num 7, dy = Num 0\<rparr>"
  have len: "trackLength ?s = Num 0" and left: "thumbLeftOf ?s ?g = Num 0"
    and en: "\<not> disabled (props ?s)" and act: "activeThumbIndex ?s = 0"
    and n: "0 < length (stateValues (state ?s))"
    and inf: "dragRatio ?s ?h = PosInfinity"
    by (simp_all add: newSlider_def defaultProps_def normalizeValue_def emptyValue_def
        new_AnimatedValue_def emptyStore_def trackLength_def thumbLeftOf_def js_sub_Num
        dragRatio_def)
  have a: "getValue ?s ?g = NaN"
    using getValue_unguarded [of ?s ?g] len left by blast
  have b: "\<exists>s'. handlePanResponderMove ?g ?s = Inr s' \<and> getRawValues s' ! 0 = NaN"
    using getValue_unguarded [of ?s ?g] len left en act n by simp
  have c: "\<not> is_finite (dragRatio ?s ?h)"
    using getValue_unguarded [of ?s ?h] len by blast
  show ?thesis
    using len left en a b inf c by blast
qed

section \<open>Separation of two thumbs\<close>

text \<open>
  Claim C5. With two thumbs and crossover not allowed, the mapper clamps to a range that
  keeps the buffer (the step when it is positive, 0.1 when it is 0) between the thumbs:
  for thumb 1 the lower limit is thumb 0's value plus the buffer, for thumb 0 the upper
  limit is thumb 1's value minus the buffer. With step 0 and the thumbs at 40 and 60
  (within the bounds), a drag of thumb 1 aiming below 40.1 gives 40.1 and a drag of
  thumb 0 aiming above 59.9 gives 59.9.
\<close>

theorem getValue_separation:
  assumes "length (stateValues (state s)) = 2" and "\<not> allowCrossover (props s)"
  shows "(\<forall>st. step (props s) = Num st \<and> 0 < st \<longrightarrow> separationBuffer s = Num st) \<and>
         (step (props s) = Num 0 \<longrightarrow> separationBuffer s = Num (1 / 10)) \<and>
         (activeThumbIndex s = 1 \<longrightarrow>
            valueLimits s =
              (js_add (getRawValues s ! 0) (separationBuffer s), maximumValue (props s))) \<and>
         (activeThumbIndex s = 0 \<longrightarrow>
            valueLimits s =
              (minimumValue (props s), js_sub (getRawValues s ! 1) (separationBuffer s))) \<and>
         getValue s g =
           Math_max (fst (valueLimits s)) (Math_min (snd (valueLimits s)) (unclampedValue s g)) \<and>
         (step (props s) = Num 0 \<and> getRawValues s = [Num 40, Num 60] \<and>
          withinBounds (props s) (Num 40) \<and> withinBounds (props s) (Num 60) \<longrightarrow>
            (activeThumbIndex s = 1 \<and> js_lt (unclampedValue s g) (Num (401 / 10)) \<longrightarrow>
               getValue s g = Num (401 / 10)) \<and>
            (activeThumbIndex s = 0 \<and> js_gt (unclampedValue s g) (Num (599 / 10)) \<longrightarrow>
               getValue s g = Num (599 / 10)))"
proof -
  have buf: "(\<forall>st. step (props s) = Num st \<and> 0 < st \<longrightarrow> separationBuffer s = Num st) \<and>
         (step (props s) = Num 0 \<longrightarrow> separationBuffer s = Num (1 / 10))"
    by (simp add: separationBuffer_def)
  have lim1: "activeThumbIndex s = 1 \<longrightarrow>
            valueLimits s =
              (js_add (getRawValues s ! 0) (separationBuffer s), maximumValue (props s))"
    using assms by (simp add: valueLimits_def)
  have lim0: "activeThumbIndex s = 0 \<longrightarrow>
            valueLimits s =
              (minimumValue (props s), js_sub (getRawValues s ! 1) (separationBuffer s))"
    using assms by (simp add: valueLimits_def)
  have ex: "getValue s g = Num (401 / 10)"
    if c: "step (props s) = Num 0" "getRawValues s = [Num 40, Num 60]"
      "withinBounds (props s) (Num 60)"
      "activeThumbIndex s = 1" "js_lt (unclampedValue s g) (Num (401 / 10))"
  proof -
    have "maximumValue (props s) \<noteq> NaN"
      using c(3) by (auto simp add: withinBounds_def js_le_def)
    moreover have "valueLimits s = (Num (401 / 10), maximumValue (props s))"
      using lim1 buf c by simp
    ultimately show ?thesis
      using c(5) by (simp add: getValue_clamp clamp_below)
  qed
  have ex0: "getValue s g = Num (599 / 10)"
    if c: "step (props s) = Num 0" "getRawValues s = [Num 40, Num 60]"
      "withinBounds (props s) (Num 40)"
      "activeThumbIndex s = 0" "js_gt (unclampedValue s g) (Num (599 / 10))"
  proof -
    have "js_le (minimumValue (props s)) (Num (599 / 10))"
      using c(3) by (cases "minimumValue (props s)") (auto simp add: withinBounds_def js_le_def)
    moreover have "valueLimits s = (minimumValue (props s), Num (599 / 10))"
      using lim0 buf c by (simp add: js_sub_Num)
    ultimately show ?thesis
      using c(5) by (simp add: getValue_clamp clamp_above js_gt_def)
  qed
  show ?thesis
    using buf lim1 lim0 ex ex0 getValue_clamp [of s g] by blast
qed

theorem getValue_separation_witness:
  "length (stateValues (state
     (setMeasured \<lparr>width = Num 120, height = Num 40\<rparr> \<lparr>width = Num 20, height = Num 20\<rparr>
        (newSlider
           (defaultProps\<lparr>maximumValue := Num 100, dualSlider := True, allowCrossover := False\<rparr>)
           (Array [Num 40, Num 60]) False)))) = 2 \<and>
   getRawValues
     (setMeasured \<lparr>width = Num 120, height = Num 40\<rparr> \<lparr>width = Num 20, height = Num 20\<rparr>
        (newSlider
           (defaultProps\<lparr>maximumValue := Num 100, dualSlider := True, allowCrossover := False\<rparr>)
           (Array [Num 40, Num 60]) False)) = [Num 40, Num 60] \<and>
   unclampedValue
     ((setMeasured \<lparr>width = Num 120, height = Num 40\<rparr> \<lparr>width = Num 20, height = Num 20\<rparr>
        (newSlider
           (defaultProps\<lparr>maximumValue := Num 100, dualSlider := True, allowCrossover := False\<rparr>)
           (Array [Num 40, Num 60]) False))\<lparr>activeThumbIndex := 1\<rparr>)
     \<lparr>dx = Num 30, dy = Num 0\<rparr> = Num 30 \<and>
   getValue
     ((setMeasured \<lparr>width = Num 120, height = Num 40\<rparr> \<lparr>width = Num 20, height = Num 20\<rparr>
        (newSlider
           (defaultProps\<lparr>maximumValue := Num 100, dualSlider := True, allowCrossover := False\<rparr>)
           (Array [Num 40, Num 60]) False))\<lparr>activeThumbIndex := 1\<rparr>)
     \<lparr>dx = Num 30, dy = Num 0\<rparr> = Num (401 / 10) \<and>
   map_sum id getRawValues
     (handlePanResponderMove \<lparr>dx = Num 30, dy = Num 0\<rparr>
        ((setMeasured \<lparr>width = Num 120, height = Num 40\<rparr> \<lparr>width = Num 20, height = Num 20\<rparr>
        (newSlider
           (defaultProps\<lparr>maximumValue := Num 100, dualSlider := True, allowCrossover := False\<rparr>)
           (Array [Num 40, Num 60]) False))\<lparr>activeThumbIndex := 1\<rparr>)) = Inr [Num 40, Num (401 / 10)] \<and>
   unclampedValue
     (setMeasured \<lparr>width = Num 120, height = Num 40\<rparr> \<lparr>width = Num 20, height = Num 20\<rparr>
        (newSlider
           (defaultProps\<lparr>maximumValue := Num 100, dualSlider := True, allowCrossover := False\<rparr>)
           (Array [Num 40, Num 60]) False))
     \<lparr>dx = Num 80, dy = Num 0\<rparr> = Num 80 \<and>
   getValue
     (setMeasured \<lparr>width = Num 120, height = Num 40\<rparr> \<lparr>width = Num 20, height = Num 20\<rparr>
        (newSlider
           (defaultProps\<lparr>maximumValue := Num 100, dualSlider := True, allowCrossover := False\<rparr>)
           (Array [Num 40, Num 60]) False))
     \<lparr>dx = Num 80, dy = Num 0\<rparr> = Num (599 / 10) \<and>
   map_sum id getRawValues
     (handlePanResponderMove \<lparr>dx = Num 80, dy = Num 0\<rparr>
        (setMeasured \<lparr>width = Num 120, height = Num 40\<rparr> \<lparr>width = Num 20, height = Num 20\<rparr>
        (newSlider
           (defaultProps\<lparr>maximumValue := Num 100, dualSlider := True, allowCrossover := False\<rparr>)
           (Array [Num 40, Num 60]) False))) = Inr [Num (599 / 10), Num 60] \<and>
   separationBuffer
     ((setMeasured \<lparr>width = Num 120, height = Num 40\<rparr> \<lparr>width = Num 20, height = Num 20\<rparr>
        (newSlider
           (defaultProps\<lparr>maximumValue := Num 100, step := Num 5, dualSlider := True,
              allowCrossover := False\<rparr>)
           (Array [Num 40, Num 60]) False))\<lparr>activeThumbIndex := 1\<rparr>) = Num 5 \<and>
   valueLimits
     ((setMeasured \<lparr>width = Num 120, height = Num 40\<rparr> \<lparr>width = Num 20, height = Num 20\<rparr>
        (newSlider
           (defaultProps\<lparr>maximumValue := Num 100, step := Num 5, dualSlider := True,
              allowCrossover := False\<rparr>)
           (Array [Num 40, Num 60]) False))\<lparr>activeThumbIndex := 1\<rparr>) = (Num 45, Num 100) \<and>
   getValue
     ((setMeasured \<lparr>width = Num 120, height = Num 40\<rparr> \<lparr>width = Num 20, height = Num 20\<rparr>
        (newSlider
           (defaultProps\<lparr>maximumValue := Num 100, step := Num 5, dualSlider := True,
              allowCrossover := False\<rparr>)
           (Array [Num 40, Num 60]) False))\<lparr>activeThumbIndex := 1\<rparr>)
     \<lparr>dx = Num 30, dy = Num 0\<rparr> = Num 45"
proof -
  let ?d = "(setMeasured \<lparr>width = Num 120, height = Num 40\<rparr> \<lparr>width = Num 20, height = Num 20\<rparr>
        (newSlider
           (defaultProps\<lparr>maximumValue := Num 100, dualSlider := True, allowCrossover := False\<rparr>)
           (Array [Num 40, Num 60]) False))"
  let ?d1 = "?d\<lparr>activeThumbIndex := 1\<rparr>"
  let ?g = "\<lparr>dx = Num 30, dy = Num 0\<rparr>"
  let ?h = "\<lparr>dx = Num 80, dy = Num 0\<rparr>"
  have d: "?d =
      \<lparr>props = defaultProps\<lparr>maximumValue := Num 100, dualSlider := True, allowCrossover := False\<rparr>,
       state = \<lparr>allMeasured = True,
                 containerSize = \<lparr>width = Num 120, height = Num 40\<rparr>,
                 thumbSize = \<lparr>width = Num 20, height = Num 20\<rparr>,
                 stateValues = [0, 1]\<rparr>,
       activeThumbIndex = 0, previousLeft = Num 0, isRTL = False,
       store = \<lparr>cells = (\<lambda>c. Num 0)(0 := Num 40, 1 := Num 60), next_free = 2\<rparr>,
       notifications = []\<rparr>"
    by (simp add: setMeasured_def newSlider_def defaultProps_def normalizeValue_def
        normalizeArray_def getBetweenValue_def Math_max_Num Math_min_Num js_gt_def
        new_AnimatedValue_def emptyStore_def)
  have two: "length (stateValues (state ?d)) = 2" "length (stateValues (state ?d1)) = 2"
    and nc: "\<not> allowCrossover (props ?d)" "\<not> allowCrossover (props ?d1)"
    and st: "step (props ?d) = Num 0" "step (props ?d1) = Num 0"
    and raw: "getRawValues ?d = [Num 40, Num 60]" "getRawValues ?d1 = [Num 40, Num 60]"
    and wb: "withinBounds (props ?d) (Num 40)" "withinBounds (props ?d) (Num 60)"
      "withinBounds (props ?d1) (Num 40)" "withinBounds (props ?d1) (Num 60)"
    and act: "activeThumbIndex ?d = 0" "activeThumbIndex ?d1 = 1"
    unfolding d by (simp_all add: defaultProps_def getRawValues_def withinBounds_def js_le_Num)
  have t1: "unclampedValue ?d1 ?g = Num 30" and t0: "unclampedValue ?d ?h = Num 80"
    unfolding d
    by (simp_all add: defaultProps_def unclampedValue_def dragRatio_def thumbLeftOf_def
        trackLength_def js_sub_Num)
  have lt1: "js_lt (unclampedValue ?d1 ?g) (Num (401 / 10))"
    unfolding t1 by simp
  have gt0: "js_gt (unclampedValue ?d ?h) (Num (599 / 10))"
    unfolding t0 by (simp add: js_gt_def)
  have v1: "getValue ?d1 ?g = Num (401 / 10)"
    using getValue_separation [OF two(2) nc(2), of ?g] st(2) raw(2) wb(3,4) act(2) lt1 by blast
  have v0: "getValue ?d ?h = Num (599 / 10)"
    using getValue_separation [OF two(1) nc(1), of ?h] st(1) raw(1) wb(1,2) act(1) gt0 by blast
  have en: "\<not> disabled (props ?d)" "\<not> disabled (props ?d1)"
    unfolding d by (simp_all add: defaultProps_def)
  have i1: "activeThumbIndex ?d1 < length (stateValues (state ?d1))"
    and i0: "activeThumbIndex ?d < length (stateValues (state ?d))"
    unfolding d by simp_all
  have m1: "map_sum id getRawValues (handlePanResponderMove ?g ?d1) = Inr [Num 40, Num (401 / 10)]"
    unfolding handlePanResponderMove_present [OF en(2) i1] v1
    unfolding d
    by (simp add: defaultProps_def crossoverClamped_def call_onValueChange_def getRawValues_def
          setValue_def)
  have m0: "map_sum id getRawValues (handlePanResponderMove ?h ?d) = Inr [Num (599 / 10), Num 60]"
    unfolding handlePanResponderMove_present [OF en(1) i0] v0
    unfolding d
    by (simp add: defaultProps_def crossoverClamped_def call_onValueChange_def getRawValues_def
          setValue_def js_gt_def)
  let ?e = "((setMeasured \<lparr>width = Num 120, height = Num 40\<rparr> \<lparr>width = Num 20, height = Num 20\<rparr>
        (newSlider
           (defaultProps\<lparr>maximumValue := Num 100, step := Num 5, dualSlider := True,
              allowCrossover := False\<rparr>)
           (Array [Num 40, Num 60]) False))\<lparr>activeThumbIndex := 1\<rparr>)"
  have e: "?e =
      \<lparr>props = defaultProps\<lparr>maximumValue := Num 100, step := Num 5, dualSlider := True,
                 allowCrossover := False\<rparr>,
       state = \<lparr>allMeasured = True,
                 containerSize = \<lparr>width = Num 120, height = Num 40\<rparr>,
                 thumbSize = \<lparr>width = Num 20, height = Num 20\<rparr>,
                 stateValues = [0, 1]\<rparr>,
       activeThumbIndex = 1, previousLeft = Num 0, isRTL = False,
       store = \<lparr>cells = (\<lambda>c. Num 0)(0 := Num 40, 1 := Num 60), next_free = 2\<rparr>,
       notifications = []\<rparr>"
    by (simp add: setMeasured_def newSlider_def defaultProps_def normalizeValue_def
        normalizeArray_def getBetweenValue_def Math_max_Num Math_min_Num js_gt_def
        new_AnimatedValue_def emptyStore_def)
  have etwo: "length (stateValues (state ?e)) = 2" and enc: "\<not> allowCrossover (props ?e)"
    and est: "step (props ?e) = Num 5 \<and> 0 < (5::real)" and eact: "activeThumbIndex ?e = 1"
    and eraw: "getRawValues ?e ! 0 = Num 40" and emax: "maximumValue (props ?e) = Num 100"
    unfolding e by (simp_all add: defaultProps_def getRawValues_def)
  have et: "unclampedValue ?e ?g = Num 30"
    unfolding e
    by (simp add: defaultProps_def unclampedValue_def dragRatio_def thumbLeftOf_def
        trackLength_def js_sub_Num)
  have b5: "separationBuffer ?e = Num 5"
    using getValue_separation [OF etwo enc, of ?g] est by blast
  have "valueLimits ?e = (js_add (getRawValues ?e ! 0) (separationBuffer ?e), maximumValue (props ?e))"
    using getValue_separation [OF etwo enc, of ?g] eact by blast
  then have l5: "valueLimits ?e = (Num 45, Num 100)"
    unfolding b5 eraw emax by simp
  have "getValue ?e ?g =
          Math_max (fst (valueLimits ?e)) (Math_min (snd (valueLimits ?e)) (unclampedValue ?e ?g))"
    using getValue_separation [OF etwo enc, of ?g] by blast
  then have v5: "getValue ?e ?g = Num 45"
    unfolding l5 et by (simp add: Math_max_Num Math_min_Num)
  show ?thesis
    using two(1) raw(1) t1 v1 m1 t0 v0 m0 b5 l5 v5 by blast
qed

section \<open>Reconciling the value store\<close>

lemma updateCells_in_place:
  assumes "length ns = length cs"
    and "updateCells (map AnimatedValue cs) (map Number ns) h = (cs', h')"
  shows "cs' = cs \<and> next_free h' = next_free h \<and>
         (\<forall>c. c \<notin> set cs \<longrightarrow> cells h' c = cells h c) \<and>
         (distinct cs \<longrightarrow> map (cells h') cs = ns)"
  using assms
proof (induction cs arbitrary: ns h cs' h')
  case Nil
  then show ?case by simp
next
  case (Cons c rest)
  then obtain n ns' where ns: "ns = n # ns'" and len: "length ns' = length rest"
    by (cases ns) auto
  obtain cs'' h'' where rec:
    "updateCells (map AnimatedValue rest) (map Number ns') (setValue c n h) = (cs'', h'')"
    by (cases "updateCells (map AnimatedValue rest) (map Number ns') (setValue c n h)")
  have res: "cs' = c # cs''" "h' = h''"
    using Cons.prems(2) ns rec by simp_all
  have ih: "cs'' = rest \<and> next_free h'' = next_free (setValue c n h) \<and>
         (\<forall>x. x \<notin> set rest \<longrightarrow> cells h'' x = cells (setValue c n h) x) \<and>
         (distinct rest \<longrightarrow> map (cells h'') rest = ns')"
    using Cons.IH [OF len rec] .
  show ?case
    using ih res ns by (auto simp add: setValue_def)
qed

lemma updateCells_fresh:
  assumes "updateCells (map Number ns) (map Number ns) h = (cs', h')"
  shows "cs' = [next_free h ..< next_free h + length ns] \<and>
         next_free h' = next_free h + length ns \<and>
         (\<forall>c < next_free h. cells h' c = cells h c) \<and>
         map (cells h') cs' = ns"
  using assms
proof (induction ns arbitrary: h cs' h')
  case Nil
  then show ?case by simp
next
  case (Cons n rest)
  let ?h1 = "snd (new_AnimatedValue n h)"
  obtain cs'' h'' where rec:
    "updateCells (map Number rest) (map Number rest) ?h1 = (cs'', h'')"
    by (cases "updateCells (map Number rest) (map Number rest) ?h1")
  have res: "cs' = next_free h # cs''" "h' = h''"
    using Cons.prems rec by (simp_all add: new_AnimatedValue_def split_def)
  have h1: "next_free ?h1 = Suc (next_free h)" "cells ?h1 = (cells h)(next_free h := n)"
    by (simp_all add: new_AnimatedValue_def)
  have ih: "cs'' = [next_free ?h1 ..< next_free ?h1 + length rest] \<and>
         next_free h'' = next_free ?h1 + length rest \<and>
         (\<forall>c < next_free ?h1. cells h'' c = cells ?h1 c) \<and>
         map (cells h'') cs'' = rest"
    using Cons.IH [OF rec] .
  have "cells h'' (next_free h) = n"
    using ih h1 by simp
  moreover have "\<forall>c < next_free h. cells h'' c = cells h c"
    using ih h1 by simp
  moreover have "next_free h # cs'' = [next_free h ..< next_free h + length (n # rest)]"
    using ih h1 by (simp add: upt_conv_Cons del: upt_Suc)
  moreover have "next_free h'' = next_free h + length (n # rest)"
    using ih h1 by simp
  moreover have "map (cells h'') (next_free h # cs'') = n # rest"
    using ih \<open>cells h'' (next_free h) = n\<close> by auto
  ultimately show ?case
    unfolding res by blast
qed

text \<open>
  Claim C7. Reconciling a list of cells with as many new numbers writes each number into
  the cell at its index and returns the same cells: no cell is created and no other cell
  changes. Only when the two lengths differ is the result a list of new cells, one per
  new number, none of them a cell that existed before; the old cells keep their contents.
\<close>

theorem updateValues_reconcile:
  "(length ns = length cs \<longrightarrow>
      (case updateValues (Many (map AnimatedValue cs)) (Some (Many (map Number ns))) h of
         (cs', h') \<Rightarrow>
           cs' = cs \<and> next_free h' = next_free h \<and>
           (distinct cs \<longrightarrow> map (cells h') cs = ns) \<and>
           (\<forall>c. c \<notin> set cs \<longrightarrow> cells h' c = cells h c))) \<and>
   (length ns \<noteq> length cs \<longrightarrow>
      (case updateValues (Many (map AnimatedValue cs)) (Some (Many (map Number ns))) h of
         (cs', h') \<Rightarrow>
           cs' = [next_free h ..< next_free h + length ns] \<and>
           map (cells h') cs' = ns \<and>
           (\<forall>c < next_free h. c \<notin> set cs' \<and> cells h' c = cells h c)))"
proof (intro conjI impI)
  assume len: "length ns = length cs"
  obtain cs' h' where r: "updateCells (map AnimatedValue cs) (map Number ns) h = (cs', h')"
    by (cases "updateCells (map AnimatedValue cs) (map Number ns) h")
  show "case updateValues (Many (map AnimatedValue cs)) (Some (Many (map Number ns))) h of
         (cs', h') \<Rightarrow>
           cs' = cs \<and> next_free h' = next_free h \<and>
           (distinct cs \<longrightarrow> map (cells h') cs = ns) \<and>
           (\<forall>c. c \<notin> set cs \<longrightarrow> cells h' c = cells h c)"
    using updateCells_in_place [OF len r] len r by simp
next
  assume len: "length ns \<noteq> length cs"
  obtain cs' h' where r: "updateCells (map Number ns) (map Number ns) h = (cs', h')"
    by (cases "updateCells (map Number ns) (map Number ns) h")
  show "case updateValues (Many (map AnimatedValue cs)) (Some (Many (map Number ns))) h of
         (cs', h') \<Rightarrow>
           cs' = [next_free h ..< next_free h + length ns] \<and>
           map (cells h') cs' = ns \<and>
           (\<forall>c < next_free h. c \<notin> set cs' \<and> cells h' c = cells h c)"
    using updateCells_fresh [OF r] len r by auto
qed

theorem updateValues_reconcile_witness:
  "updateValues (Many [Number (Num 40), Number (Num 60)]) None emptyStore =
     ([0, 1], \<lparr>cells = (\<lambda>c. Num 0)(0 := Num 40, 1 := Num 60), next_free = 2\<rparr>) \<and>
   fst (updateValues (Many (map AnimatedValue [0, 1])) (Some (Many (map Number [Num 10, Num 20])))
          \<lparr>cells = (\<lambda>c. Num 0)(0 := Num 40, 1 := Num 60), next_free = 2\<rparr>) = [0, 1] \<and>
   map (cells (snd (updateValues (Many (map AnimatedValue [0, 1]))
                      (Some (Many (map Number [Num 10, Num 20])))
                      \<lparr>cells = (\<lambda>c. Num 0)(0 := Num 40, 1 := Num 60), next_free = 2\<rparr>)))
     [0, 1] = [Num 10, Num 20] \<and>
   fst (updateValues (Many (map AnimatedValue [0, 1])) (Some (Many (map Number [Num 5])))
          \<lparr>cells = (\<lambda>c. Num 0)(0 := Num 40, 1 := Num 60), next_free = 2\<rparr>) = [2] \<and>
   map (cells (snd (updateValues (Many (map AnimatedValue [0, 1]))
                      (Some (Many (map Number [Num 5])))
                      \<lparr>cells = (\<lambda>c. Num 0)(0 := Num 40, 1 := Num 60), next_free = 2\<rparr>)))
     [0, 1, 2] = [Num 40, Num 60, Num 5]"
proof -
  let ?h = "\<lparr>cells = (\<lambda>c. Num 0)(0 := Num 40, 1 := Num 60), next_free = 2\<rparr>"
  let ?same = "updateValues (Many (map AnimatedValue [0, 1]))
                 (Some (Many (map Number [Num 10, Num 20]))) ?h"
  let ?other = "updateValues (Many (map AnimatedValue [0, 1])) (Some (Many (map Number [Num 5]))) ?h"
  have a: "updateValues (Many [Number (Num 40), Number (Num 60)]) None emptyStore = ([0, 1], ?h)"
    by (simp add: new_AnimatedValue_def emptyStore_def)
  obtain cs1 h1 where s: "?same = (cs1, h1)"
    by (cases ?same)
  have "cs1 = [0, 1] \<and> (distinct [0, 1::nat] \<longrightarrow> map (cells h1) [0, 1] = [Num 10, Num 20])"
    using updateValues_reconcile [of "[Num 10, Num 20]" "[0, 1]" ?h] unfolding s by simp
  then have same: "fst ?same = [0, 1]" "map (cells (snd ?same)) [0, 1] = [Num 10, Num 20]"
    unfolding s by simp_all
  obtain cs2 h2 where t: "?other = (cs2, h2)"
    by (cases ?other)
  have f: "cs2 = [next_free ?h ..< next_free ?h + length [Num 5]] \<and> map (cells h2) cs2 = [Num 5] \<and>
        (\<forall>c<next_free ?h. c \<notin> set cs2 \<and> cells h2 c = cells ?h c)"
    using updateValues_reconcile [of "[Num 5]" "[0, 1]" ?h] unfolding t by auto
  have c2: "cs2 = [2]"
    using f by simp
  have "map (cells h2) cs2 = [Num 5]"
    using f by blast
  then have n2: "cells h2 2 = Num 5"
    unfolding c2 by simp
  have old: "\<forall>c<next_free ?h. cells h2 c = cells ?h c"
    using f by blast
  have "cells h2 0 = cells ?h 0" "cells h2 1 = cells ?h 1"
    using old by simp_all
  then have "cells h2 0 = Num 40" "cells h2 1 = Num 60"
    by simp_all
  with c2 n2 have "cs2 = [2]" "cells h2 2 = Num 5" "cells h2 0 = Num 40" "cells h2 1 = Num 60"
    by simp_all
  then have other: "fst ?other = [2]" "map (cells (snd ?other)) [0, 1, 2] = [Num 40, Num 60, Num 5]"
    unfolding t by simp_all
  show ?thesis
    using a same other by blast
qed

section \<open>The thumb a touch picks\<close>









section \<open>Gestures on a disabled slider\<close>

lemma disabled_move_end_ignored:
  assumes "disabled (props s)"
  shows "handlePanResponderMove g s = Inr s \<and> handlePanResponderEnd g s = Inr s"
  using assms by (simp add: handlePanResponderMove_def handlePanResponderEnd_def)

text \<open>
  Claim C4 holds for move, release and terminate, whose handlers return at once when
  \<^verbatim>\<open>disabled\<close> is set (\<open>disabled_move_end_ignored\<close>). The grant handler has no such test:
  on a disabled slider it still moves the drag anchor and calls \<^verbatim>\<open>onSlidingStart\<close>.
  Here a disabled slider with an \<^verbatim>\<open>onSlidingStart\<close> callback is pressed at
  \<open>locationX = 30\<close>.
\<close>

theorem disabled_grant_notifies:
  "disabled (props (newSlider (defaultProps\<lparr>disabled := True, onSlidingStart := True\<rparr>)
                      (Scalar (Num 0)) False)) \<and>
   notifications (newSlider (defaultProps\<lparr>disabled := True, onSlidingStart := True\<rparr>)
                    (Scalar (Num 0)) False) = [] \<and>
   previousLeft (newSlider (defaultProps\<lparr>disabled := True, onSlidingStart := True\<rparr>)
                   (Scalar (Num 0)) False) = Num 0 \<and>
   map_sum id notifications
     (handlePanResponderGrant (Num 30)
        (newSlider (defaultProps\<lparr>disabled := True, onSlidingStart := True\<rparr>)
           (Scalar (Num 0)) False)) = Inr [SlidingStart [Num 0] 0] \<and>
   map_sum id previousLeft
     (handlePanResponderGrant (Num 30)
        (newSlider (defaultProps\<lparr>disabled := True, onSlidingStart := True\<rparr>)
           (Scalar (Num 0)) False)) = Inr (Num 30)"
  by (simp add: newSlider_def defaultProps_def normalizeValue_def emptyValue_def
      new_AnimatedValue_def emptyStore_def handlePanResponderGrant_def call_onSlidingStart_def
      getRawValues_def js_sub_Num)

section \<open>Release\<close>

text \<open>
  Claim C9, as the spec states it, fails: the release handler calls \<^verbatim>\<open>onValueChange\<close>
  only when \<^verbatim>\<open>trackClickable\<close> is set. With \<^verbatim>\<open>trackClickable\<close> false and both
  callbacks supplied, a release emits the slide-complete notification alone.
\<close>

theorem handlePanResponderEnd_counterexample:
  "onValueChange
     (props
        (setMeasured \<lparr>width = Num 120, height = Num 40\<rparr> \<lparr>width = Num 20, height = Num 20\<rparr>
           (newSlider
              (defaultProps\<lparr>trackClickable := False, onValueChange := True,
                 onSlidingComplete := True\<rparr>)
              (Scalar (Num 0)) False))) \<and>
   map_sum id notifications
     (handlePanResponderEnd \<lparr>dx = Num 50, dy = Num 0\<rparr>
        (setMeasured \<lparr>width = Num 120, height = Num 40\<rparr> \<lparr>width = Num 20, height = Num 20\<rparr>
           (newSlider
              (defaultProps\<lparr>trackClickable := False, onValueChange := True,
                 onSlidingComplete := True\<rparr>)
              (Scalar (Num 0)) False))) = Inr [SlidingComplete [Num (1 / 2)] 0]"
  by (simp add: setMeasured_def newSlider_def defaultProps_def normalizeValue_def emptyValue_def
      new_AnimatedValue_def emptyStore_def handlePanResponderEnd_def setCurrentValue_def
      applySetState_def endCallback_def call_onSlidingComplete_def call_onValueChange_def
      getValue_def getRawValues_def setValue_def js_sub_Num Math_max_Num Math_min_Num Let_def)

text \<open>
  Claim C9, amended. On the release of a slider that is not disabled and whose active
  thumb has its cell, the handler writes the mapped value into that cell, then calls
  \<^verbatim>\<open>onValueChange\<close> only if \<^verbatim>\<open>trackClickable\<close> is set, then calls
  \<^verbatim>\<open>onSlidingComplete\<close>, each supplied callback receiving the value array as it
  stands after the write and the active thumb index; the active index is 0 afterwards.
\<close>

theorem handlePanResponderEnd_notifies:
  assumes "\<not> disabled (props s)"
    and "activeThumbIndex s < length (stateValues (state s))"
  shows "\<exists>s'. handlePanResponderEnd g s = Inr s' \<and>
           activeThumbIndex s' = 0 \<and> props s' = props s \<and> state s' = state s \<and>
           store s' =
             setValue (stateValues (state s) ! activeThumbIndex s)
               (crossoverClamped s (activeThumbIndex s) (getValue s g)) (store s) \<and>
           notifications s' =
             notifications s @
             (if trackClickable (props s) \<and> onValueChange (props s)
              then [ValueChange (getRawValues s') (activeThumbIndex s)] else []) @
             (if onSlidingComplete (props s)
              then [SlidingComplete (getRawValues s') (activeThumbIndex s)] else [])"
  using assms
  by (simp add: handlePanResponderEnd_def setCurrentValue_present applySetState_def
      endCallback_def call_onSlidingComplete_def call_onValueChange_def getRawValues_def)

theorem handlePanResponderEnd_notifies_witness:
  "\<not> disabled (props
     (setMeasured \<lparr>width = Num 120, height = Num 40\<rparr> \<lparr>width = Num 20, height = Num 20\<rparr>
        (newSlider
           (defaultProps\<lparr>maximumValue := Num 100, dualSlider := True, onValueChange := True,
              onSlidingComplete := True\<rparr>)
           (Array [Num 40, Num 60]) False)
      \<lparr>activeThumbIndex := 1\<rparr>)) \<and>
   activeThumbIndex
     (setMeasured \<lparr>width = Num 120, height = Num 40\<rparr> \<lparr>width = Num 20, height = Num 20\<rparr>
        (newSlider
           (defaultProps\<lparr>maximumValue := Num 100, dualSlider := True, onValueChange := True,
              onSlidingComplete := True\<rparr>)
           (Array [Num 40, Num 60]) False)
      \<lparr>activeThumbIndex := 1\<rparr>) = 1 \<and>
   map_sum id notifications
     (handlePanResponderEnd \<lparr>dx = Num 80, dy = Num 0\<rparr>
        (setMeasured \<lparr>width = Num 120, height = Num 40\<rparr> \<lparr>width = Num 20, height = Num 20\<rparr>
        (newSlider
           (defaultProps\<lparr>maximumValue := Num 100, dualSlider := True, onValueChange := True,
              onSlidingComplete := True\<rparr>)
           (Array [Num 40, Num 60]) False)
      \<lparr>activeThumbIndex := 1\<rparr>)) =
     Inr [ValueChange [Num 40, Num 80] 1, SlidingComplete [Num 40, Num 80] 1] \<and>
   map_sum id activeThumbIndex
     (handlePanResponderEnd \<lparr>dx = Num 80, dy = Num 0\<rparr>
        (setMeasured \<lparr>width = Num 120, height = Num 40\<rparr> \<lparr>width = Num 20, height = Num 20\<rparr>
        (newSlider
           (defaultProps\<lparr>maximumValue := Num 100, dualSlider := True, onValueChange := True,
              onSlidingComplete := True\<rparr>)
           (Array [Num 40, Num 60]) False)
      \<lparr>activeThumbIndex := 1\<rparr>)) = Inr 0"
proof -
  let ?w = "(setMeasured \<lparr>width = Num 120, height = Num 40\<rparr> \<lparr>width = Num 20, height = Num 20\<rparr>
        (newSlider
           (defaultProps\<lparr>maximumValue := Num 100, dualSlider := True, onValueChange := True,
              onSlidingComplete := True\<rparr>)
           (Array [Num 40, Num 60]) False)
      \<lparr>activeThumbIndex := 1\<rparr>)"
  let ?g = "\<lparr>dx = Num 80, dy = Num 0\<rparr>"
  have w: "?w =
      \<lparr>props = defaultProps\<lparr>maximumValue := Num 100, dualSlider := True, onValueChange := True,
                 onSlidingComplete := True\<rparr>,
       state = \<lparr>allMeasured = True,
                 containerSize = \<lparr>width = Num 120, height = Num 40\<rparr>,
                 thumbSize = \<lparr>width = Num 20, height = Num 20\<rparr>,
                 stateValues = [0, 1]\<rparr>,
       activeThumbIndex = 1, previousLeft = Num 0, isRTL = False,
       store = \<lparr>cells = (\<lambda>c. Num 0)(0 := Num 40, 1 := Num 60), next_free = 2\<rparr>,
       notifications = []\<rparr>"
    by (simp add: setMeasured_def newSlider_def defaultProps_def normalizeValue_def
        normalizeArray_def getBetweenValue_def Math_max_Num Math_min_Num js_gt_def
        new_AnimatedValue_def emptyStore_def)
  have en: "\<not> disabled (props ?w)" and act: "activeThumbIndex ?w = 1"
    and i: "activeThumbIndex ?w < length (stateValues (state ?w))"
    and tc: "trackClickable (props ?w) \<and> onValueChange (props ?w)"
    and sc: "onSlidingComplete (props ?w)"
    and old: "notifications ?w = []"
    and vals: "stateValues (state ?w) = [0, 1]"
    unfolding w by (simp_all add: defaultProps_def)
  have v: "getValue ?w ?g = Num 80"
    unfolding w
    by (simp add: defaultProps_def getValue_def getRawValues_def js_sub_Num Math_max_Num
        Math_min_Num)
  have cl: "crossoverClamped ?w 1 (Num 80) = Num 80"
    unfolding w by (simp add: defaultProps_def crossoverClamped_def)
  have st: "setValue (stateValues (state ?w) ! activeThumbIndex ?w)
              (crossoverClamped ?w (activeThumbIndex ?w) (getValue ?w ?g)) (store ?w) =
            \<lparr>cells = (\<lambda>c. Num 0)(0 := Num 40, 1 := Num 80), next_free = 2\<rparr>"
    unfolding act v cl unfolding w by (simp add: setValue_def)
  obtain s' where r: "handlePanResponderEnd ?g ?w = Inr s'"
    and a0: "activeThumbIndex s' = 0" and same: "state s' = state ?w"
    and store': "store s' =
             setValue (stateValues (state ?w) ! activeThumbIndex ?w)
               (crossoverClamped ?w (activeThumbIndex ?w) (getValue ?w ?g)) (store ?w)"
    and ns: "notifications s' =
             notifications ?w @
             (if trackClickable (props ?w) \<and> onValueChange (props ?w)
              then [ValueChange (getRawValues s') (activeThumbIndex ?w)] else []) @
             (if onSlidingComplete (props ?w)
              then [SlidingComplete (getRawValues s') (activeThumbIndex ?w)] else [])"
    using handlePanResponderEnd_notifies [OF en i, of ?g] by blast
  have store2: "store s' = \<lparr>cells = (\<lambda>c. Num 0)(0 := Num 40, 1 := Num 80), next_free = 2\<rparr>"
    using store' st by (rule trans)
  have raw: "getRawValues s' = [Num 40, Num 80]"
    unfolding getRawValues_def same vals store2 by simp
  have "notifications s' = [ValueChange [Num 40, Num 80] 1, SlidingComplete [Num 40, Num 80] 1]"
    unfolding ns raw act old using tc sc by simp
  then show ?thesis
    using en act a0 unfolding r by simp
qed

end
